theory Spec2Isabelle
  imports Main "HOL-Library.Word"
begin

section \<open>The optimizer base of torch::optim (optimizer.h, optimizer.cpp)\<close>

subsection \<open>Tensors and the store they live in\<close>

text \<open>
  \<open>at::Tensor\<close> is a reference-counted handle: copying a \<open>Tensor\<close> into a vector copies
  the handle, and two handles with the same identity denote one tensor. A handle is a
  \<open>nat\<close>; the tensors themselves live in a store that every operation reads and returns
  updated. The class \<open>at::Tensor\<close> is not part of the sources at hand.
\<close>

type_synonym handle = nat

datatype Device = CPU | CUDA nat

datatype ScalarType = Byte | Char | Short | Int | Long | Half | Float | Double | Bool

record Gradient =
  attached :: bool
  gdata :: "int list"

text \<open>
  Modelled from the spec: the tensor behind a Parameter Handle, which the sources only
  use through \<open>is_leaf()\<close>, \<open>grad()\<close>, \<open>device()\<close>, \<open>dtype()\<close>, \<open>scalar_type()\<close>,
  \<open>to(device, dtype)\<close> and \<open>torch::zeros_like\<close>. \<open>grad\<close> is the optional gradient
  (\<open>None\<close> when \<open>grad().defined()\<close> is false), \<open>attached\<close> says that a gradient still
  has a computation history, \<open>sizes\<close> is the shape and \<open>data\<close> the elements. Elements are
  kept as integers: the code here only overwrites them with zero or hands them to the
  cast of \<open>to\<close>.
\<close>

record TensorImpl =
  is_leaf :: bool
  device :: Device
  dtype :: ScalarType
  sizes :: "nat list"
  data :: "int list"
  grad :: "Gradient option"

text \<open>
  The store: \<open>cell\<close> gives the tensor behind every handle, \<open>fresh\<close> is the next handle
  an allocation hands out.
\<close>

record heap =
  cell :: "handle \<Rightarrow> TensorImpl"
  fresh :: handle

definition alloc :: "TensorImpl \<Rightarrow> heap \<Rightarrow> handle \<times> heap" where
  "alloc t H = (fresh H, H\<lparr>cell := (cell H)(fresh H := t), fresh := Suc (fresh H)\<rparr>)"

text \<open>Modelled from the spec: the gradient's in-place \<open>detach_()\<close> and \<open>zero_()\<close>.\<close>

definition detach_inplace :: "Gradient \<Rightarrow> Gradient" where
  "detach_inplace g = g\<lparr>attached := False\<rparr>"

definition zero_inplace :: "Gradient \<Rightarrow> Gradient" where
  "zero_inplace g = g\<lparr>gdata := map (\<lambda>_. 0) (gdata g)\<rparr>"

text \<open>
  Modelled from the spec: \<open>torch::zeros_like(t)\<close> allocates a tensor of the shape, device
  and element type of \<open>t\<close>, filled with zeros, without gradient.
\<close>

definition zeros_like :: "handle \<Rightarrow> heap \<Rightarrow> handle \<times> heap" where
  "zeros_like p H =
     (let t = cell H p
      in alloc \<lparr>is_leaf = True, device = device t, dtype = dtype t, sizes = sizes t,
                data = map (\<lambda>_. 0) (data t), grad = None\<rparr> H)"

text \<open>
  Modelled from the spec: \<open>t.to(device, dtype)\<close> gives a new handle with the data copied
  and cast. The cast of the elements belongs to the tensor runtime and is the parameter
  \<open>cast\<close>.
\<close>

definition tensor_to ::
  "(ScalarType \<Rightarrow> int \<Rightarrow> int) \<Rightarrow> handle \<Rightarrow> Device \<Rightarrow> ScalarType \<Rightarrow> heap \<Rightarrow> handle \<times> heap" where
  "tensor_to cast b dev dt H =
     (let t = cell H b
      in alloc \<lparr>is_leaf = True, device = dev, dtype = dt, sizes = sizes t,
                data = map (cast dt) (data t), grad = None\<rparr> H)"

subsection \<open>Errors\<close>

text \<open>
  \<open>InvalidParameter\<close> is the \<open>c10::Error\<close> that \<open>TORCH_CHECK(param.is_leaf(), ...)\<close>
  throws, \<open>OutOfRange\<close> the \<open>std::out_of_range\<close> of \<open>std::vector::at\<close>,
  \<open>LengthError\<close> the \<open>std::length_error\<close> of a \<open>std::vector\<close> asked to hold more
  than \<open>max_size()\<close> elements, and \<open>UndefinedBehaviour\<close> stands for an unchecked
  \<open>operator[]\<close> outside the vector.
\<close>

datatype error = InvalidParameter | OutOfRange | LengthError | UndefinedBehaviour

subsection \<open>Parameter groups and the optimizer object\<close>

text \<open>
  Modelled from the spec: \<open>OptimizerParamGroup\<close> is a template argument of
  \<open>OptimizerBase\<close> and is not defined in the sources; they use its \<open>params()\<close>,
  \<open>has_options()\<close> and \<open>set_options()\<close>. By the spec a group is a sequence of handles
  with optional options, and a group without options receives a copy of the defaults.
\<close>

record 'opt OptimizerParamGroup =
  params :: "handle list"
  options :: "'opt option"

definition has_options :: "'opt OptimizerParamGroup \<Rightarrow> bool" where
  "has_options g = (options g \<noteq> None)"

definition set_options :: "'opt \<Rightarrow> 'opt OptimizerParamGroup \<Rightarrow> 'opt OptimizerParamGroup" where
  "set_options d g = g\<lparr>options := Some d\<rparr>"

text \<open>
  The data members of \<open>OptimizerBase\<close> (optimizer.h, lines 117 to 122). An Isabelle
  name cannot end in an underscore: the member \<open>parameters_\<close> is the field
  \<open>parameters_m\<close>, and so on; \<open>detach_()\<close> and \<open>zero_()\<close> are \<open>detach_inplace\<close>
  and \<open>zero_inplace\<close>.
\<close>

record ('ps, 'opt) OptimizerBase =
  parameters_m :: "handle list"
  defaults_m :: "'opt"
  param_groups_m :: "'opt OptimizerParamGroup list"
  state_m :: "handle \<rightharpoonup> 'ps"

subsection \<open>Construction and registration\<close>

text \<open>
  \<open>OptimizerBase(std::vector<Tensor> parameters)\<close> (optimizer.cpp, line 16) moves the
  vector into \<open>parameters_\<close>; the other members are default-initialised, \<open>d0\<close> being the
  default-initialised \<open>OptimizerOptions\<close>. A constructor reports failure by throwing, so
  the result is a sum.
\<close>

definition OptimizerBase_of_parameters ::
  "'opt \<Rightarrow> handle list \<Rightarrow> error + ('ps, 'opt) OptimizerBase" where
  "OptimizerBase_of_parameters d0 parameters =
     Inr \<lparr>parameters_m = parameters, defaults_m = d0, param_groups_m = [], state_m = Map.empty\<rparr>"

text \<open>
  \<open>add_param_group\<close> (optimizer.h, line 60). Its first loop checks every handle of the
  group and throws at the first that is not a leaf. The group is passed by value, so
  \<open>set_options\<close> changes the callee's copy. The function works on the object in place:
  the model returns what the call did (\<open>Inl\<close> for a throw) together with the object as
  the call leaves it.
\<close>

fun check_is_leaf :: "heap \<Rightarrow> handle list \<Rightarrow> error + unit" where
  "check_is_leaf H [] = Inr ()"
| "check_is_leaf H (param # rest) =
     (if is_leaf (cell H param) then check_is_leaf H rest else Inl InvalidParameter)"

definition add_param_group ::
  "heap \<Rightarrow> 'opt OptimizerParamGroup \<Rightarrow> ('ps, 'opt) OptimizerBase
     \<Rightarrow> (error + unit) \<times> ('ps, 'opt) OptimizerBase" where
  "add_param_group H param_group opt =
     (case check_is_leaf H (params param_group) of
        Inl e \<Rightarrow> (Inl e, opt)
      | Inr _ \<Rightarrow>
          let param_group = (if \<not> has_options param_group
                             then set_options (defaults_m opt) param_group else param_group)
          in (Inr (), opt\<lparr>param_groups_m := param_groups_m opt @ [param_group]\<rparr>))"

text \<open>
  \<open>OptimizerBase(std::vector<OptimizerParamGroup>, OptimizerOptions)\<close> (optimizer.h,
  line 51) sets the defaults and registers the groups in order; a throw of
  \<open>add_param_group\<close> leaves the constructor. The third constructor (line 57) delegates
  to it with one group that has no options.
\<close>

fun add_param_groups ::
  "heap \<Rightarrow> 'opt OptimizerParamGroup list \<Rightarrow> ('ps, 'opt) OptimizerBase
     \<Rightarrow> error + ('ps, 'opt) OptimizerBase" where
  "add_param_groups H [] opt = Inr opt"
| "add_param_groups H (g # gs) opt =
     (case add_param_group H g opt of
        (Inl e, _) \<Rightarrow> Inl e
      | (Inr _, opt') \<Rightarrow> add_param_groups H gs opt')"

definition OptimizerBase_of_groups ::
  "heap \<Rightarrow> 'opt OptimizerParamGroup list \<Rightarrow> 'opt \<Rightarrow> error + ('ps, 'opt) OptimizerBase" where
  "OptimizerBase_of_groups H groups defaults =
     add_param_groups H groups
       \<lparr>parameters_m = [], defaults_m = defaults, param_groups_m = [], state_m = Map.empty\<rparr>"

definition OptimizerBase_of_params_defaults ::
  "heap \<Rightarrow> handle list \<Rightarrow> 'opt \<Rightarrow> error + ('ps, 'opt) OptimizerBase" where
  "OptimizerBase_of_params_defaults H ps defaults =
     OptimizerBase_of_groups H [\<lparr>params = ps, options = None\<rparr>] defaults"

text \<open>\<open>add_parameters\<close>, \<open>parameters()\<close> and \<open>size()\<close> (optimizer.cpp, lines 20 to 55).\<close>

definition add_parameters ::
  "handle list \<Rightarrow> ('ps, 'opt) OptimizerBase \<Rightarrow> ('ps, 'opt) OptimizerBase" where
  "add_parameters parameters opt = opt\<lparr>parameters_m := parameters_m opt @ parameters\<rparr>"

definition parameters :: "('ps, 'opt) OptimizerBase \<Rightarrow> handle list" where
  "parameters opt = parameters_m opt"

definition size_opt :: "('ps, 'opt) OptimizerBase \<Rightarrow> nat" where
  "size_opt opt = length (parameters_m opt)"

subsection \<open>Resetting the gradients\<close>

text \<open>
  \<open>zero_grad\<close> (optimizer.cpp, line 25). The body of both loops is the same: when the
  gradient of the handle is defined it is detached and zeroed in place. The first loop
  runs over \<open>parameters_\<close>, the second over the handles of every group, in order. The
  source calls the group list \<open>param_groups\<close> there; the class has no member of that
  name, and the model reads \<open>param_groups_\<close>.
\<close>

definition zero_grad_body :: "handle \<Rightarrow> heap \<Rightarrow> heap" where
  "zero_grad_body p H =
     (case grad (cell H p) of
        None \<Rightarrow> H
      | Some g \<Rightarrow>
          H\<lparr>cell := (cell H)(p := (cell H p)\<lparr>grad := Some (zero_inplace (detach_inplace g))\<rparr>)\<rparr>)"

definition zero_grad :: "('ps, 'opt) OptimizerBase \<Rightarrow> heap \<Rightarrow> heap" where
  "zero_grad opt H =
     (let H1 = fold zero_grad_body (parameters_m opt) H
      in fold (\<lambda>group. fold zero_grad_body (params group)) (param_groups_m opt) H1)"

text \<open>
  The handles that the two loops of \<open>zero_grad\<close> bind, one entry for every run of the
  loop body, in the order of the runs.
\<close>

definition zero_grad_visits :: "('ps, 'opt) OptimizerBase \<Rightarrow> handle list" where
  "zero_grad_visits opt = parameters_m opt @ concat (map params (param_groups_m opt))"

subsection \<open>Buffers\<close>

text \<open>
  The operations of \<open>std::vector\<close> that \<open>buffer_at\<close> uses. \<open>max_size\<close> is the value
  of the vector's \<open>max_size()\<close>, a constant of the standard library in use and a
  parameter here. \<open>resize n\<close> cuts the vector to \<open>n\<close> elements, or appends
  value-initialised ones (\<open>dflt\<close> is \<open>T{}\<close>) and throws when \<open>n\<close> is beyond
  \<open>max_size\<close>; \<open>reserve n\<close> throws when \<open>n\<close> is beyond \<open>max_size\<close> and changes no
  element; \<open>push_back\<close> throws when the vector is full. A throw leaves the vector as
  it was. \<open>fill_from\<close> is \<open>std::fill\<close> from a position to the end. The allocator is
  taken to grant every request within \<open>max_size\<close>.
\<close>

definition resize :: "nat \<Rightarrow> 'a \<Rightarrow> nat \<Rightarrow> 'a list \<Rightarrow> error + 'a list" where
  "resize max_size dflt n buffers =
     (if n \<le> length buffers then Inr (take n buffers)
      else if max_size < n then Inl LengthError
      else Inr (buffers @ replicate (n - length buffers) dflt))"

definition reserve :: "nat \<Rightarrow> nat \<Rightarrow> 'a list \<Rightarrow> error + unit" where
  "reserve max_size n buffers = (if max_size < n then Inl LengthError else Inr ())"

definition push_back :: "nat \<Rightarrow> 'a \<Rightarrow> 'a list \<Rightarrow> error + 'a list" where
  "push_back max_size x buffers =
     (if max_size \<le> length buffers then Inl LengthError else Inr (buffers @ [x]))"

definition fill_from :: "nat \<Rightarrow> 'a \<Rightarrow> 'a list \<Rightarrow> 'a list" where
  "fill_from first v buffers = take first buffers @ replicate (length buffers - first) v"

text \<open>
  The generic \<open>buffer_at\<close> (optimizer.h, line 103). \<open>index\<close> and \<open>max_size\<close> are
  \<open>size_t\<close> values, words of the platform's width, and \<open>index + 1\<close> wraps around.
  When the index is not in the vector, the vector is resized to \<open>index + 1\<close> and
  \<open>T{0}\<close> is written from the old size to the end. The function returns a reference to
  the slot \<open>index\<close> through the unchecked \<open>operator[]\<close>: the model returns the vector
  and the slot, or \<open>UndefinedBehaviour\<close> when the slot is not in the vector.
\<close>

definition buffer_at ::
  "('w::len) word \<Rightarrow> 'a \<Rightarrow> ('a::zero) list \<Rightarrow> 'w word \<Rightarrow> error + ('a list \<times> nat)" where
  "buffer_at max_size dflt buffers index =
     (case (if length buffers \<le> unat index
            then let old_size = length buffers
                 in (case resize (unat max_size) dflt (unat (index + 1)) buffers of
                       Inl e \<Rightarrow> Inl e
                     | Inr resized \<Rightarrow> Inr (fill_from old_size 0 resized))
            else Inr buffers) of
        Inl e \<Rightarrow> Inl e
      | Inr buffers1 \<Rightarrow>
          if unat index < length buffers1 then Inr (buffers1, unat index)
          else Inl UndefinedBehaviour)"

text \<open>
  The \<open>Tensor\<close> overload of \<open>buffer_at\<close> (optimizer.cpp, line 58). When the index is
  not in the vector, \<open>reserve(index)\<close> comes first; then the loop pushes
  \<open>zeros_like(parameters_.at(i))\<close> for \<open>i\<close> from the old size up to \<open>index\<close>.
  \<open>at\<close> throws when \<open>i\<close> is not an index of \<open>parameters_\<close>, with the vector as far
  as it has grown. Sizes and indices are \<open>nat\<close> here: the only arithmetic is \<open>++i\<close>,
  and \<open>at(i)\<close> has thrown before \<open>i\<close> could wrap around.
\<close>

function buffer_at_grow ::
  "nat \<Rightarrow> handle list \<Rightarrow> nat \<Rightarrow> nat \<Rightarrow> handle list \<Rightarrow> heap
     \<Rightarrow> (error + unit) \<times> handle list \<times> heap" where
  "buffer_at_grow max_size ps index i buffers H =
     (if i \<le> index
      then (if i < length ps
            then (case zeros_like (ps ! i) H of
                    (z, H') \<Rightarrow>
                      (case push_back max_size z buffers of
                         Inl e \<Rightarrow> (Inl e, buffers, H')
                       | Inr buffers' \<Rightarrow> buffer_at_grow max_size ps index (Suc i) buffers' H'))
            else (Inl OutOfRange, buffers, H))
      else (Inr (), buffers, H))"
  by pat_completeness auto
termination
  by (relation "measure (\<lambda>(max_size, ps, index, i, buffers, H). Suc index - i)") auto

declare buffer_at_grow.simps [simp del]

text \<open>
  After the growth the parameter and the buffer are read with \<open>at\<close>; when device or
  element type differ, the buffer is cast and the new tensor is stored in the slot. The
  result is the tensor in the slot \<open>index\<close>, with the vector and the store as the call
  leaves them.
\<close>

definition buffer_at_Tensor ::
  "nat \<Rightarrow> (ScalarType \<Rightarrow> int \<Rightarrow> int) \<Rightarrow> ('ps, 'opt) OptimizerBase \<Rightarrow> handle list \<Rightarrow> nat
     \<Rightarrow> heap \<Rightarrow> (error + handle) \<times> handle list \<times> heap" where
  "buffer_at_Tensor max_size cast opt buffers index H =
     (case (if length buffers \<le> index
            then (case reserve max_size index buffers of
                    Inl e \<Rightarrow> (Inl e, buffers, H)
                  | Inr _ \<Rightarrow>
                      buffer_at_grow max_size (parameters_m opt) index (length buffers)
                        buffers H)
            else (Inr (), buffers, H)) of
        (Inl e, buffers1, H1) \<Rightarrow> (Inl e, buffers1, H1)
      | (Inr _, buffers1, H1) \<Rightarrow>
          if \<not> index < length (parameters_m opt) then (Inl OutOfRange, buffers1, H1)
          else if \<not> index < length buffers1 then (Inl OutOfRange, buffers1, H1)
          else
            let parameter = cell H1 (parameters_m opt ! index);
                buffer = buffers1 ! index
            in if device (cell H1 buffer) \<noteq> device parameter
                  \<or> dtype (cell H1 buffer) \<noteq> dtype parameter
               then (case tensor_to cast buffer (device parameter) (dtype parameter) H1 of
                       (b, H2) \<Rightarrow> (Inr b, buffers1[index := b], H2))
               else (Inr buffer, buffers1, H1))"

subsection \<open>Auxiliary notions and example objects\<close>

text \<open>What one run of the loop body of \<open>zero_grad\<close> makes of a tensor.\<close>

definition zeroed :: "TensorImpl \<Rightarrow> TensorImpl" where
  "zeroed t = (case grad t of None \<Rightarrow> t
               | Some g \<Rightarrow> t\<lparr>grad := Some (zero_inplace (detach_inplace g))\<rparr>)"

text \<open>What \<open>zeros_like\<close> promises of its result \<open>z\<close> for the tensor \<open>t\<close>.\<close>

definition zeros_like_of :: "TensorImpl \<Rightarrow> TensorImpl \<Rightarrow> bool" where
  "zeros_like_of z t \<longleftrightarrow>
     sizes z = sizes t \<and> device z = device t \<and> dtype z = dtype t
     \<and> data z = replicate (length (data t)) 0"

text \<open>
  A small store: handle 1 is not a leaf, handle 2 has a gradient with history, handle 3
  is a tensor of doubles on a CUDA device, every other handle is a leaf on the CPU
  without gradient. \<open>keep_value\<close> is a cast that keeps every element.
\<close>

definition keep_value :: "ScalarType \<Rightarrow> int \<Rightarrow> int" where
  "keep_value dt v = v"

text \<open>
  A cast that leaves a mark on every element, so that cast data can be told from the
  data it came from, and a value of \<open>max_size()\<close>, one below the 60th power of 2.
\<close>

definition mark_cast :: "ScalarType \<Rightarrow> int \<Rightarrow> int" where
  "mark_cast dt v = (if dt = Float then v + 100 else v)"

definition ex_max_size :: nat where
  "ex_max_size = 1152921504606846975"

definition leaf_tensor :: "nat list \<Rightarrow> TensorImpl" where
  "leaf_tensor shape = \<lparr>is_leaf = True, device = CPU, dtype = Float, sizes = shape,
     data = replicate (prod_list shape) 1, grad = None\<rparr>"

definition ex_heap :: heap where
  "ex_heap =
     \<lparr>cell = (\<lambda>h. if h = 0 then leaf_tensor [2]
                 else if h = 1 then (leaf_tensor [3])\<lparr>is_leaf := False\<rparr>
                 else if h = 2
                   then (leaf_tensor [2])\<lparr>grad := Some \<lparr>attached = True, gdata = [5, 7]\<rparr>\<rparr>
                 else if h = 3 then (leaf_tensor [2])\<lparr>device := CUDA 0, dtype := Double\<rparr>
                 else leaf_tensor [3]),
      fresh = 6\<rparr>"

definition ex_opt :: "(int, int) OptimizerBase" where
  "ex_opt = \<lparr>parameters_m = [0, 2], defaults_m = 10,
             param_groups_m = [\<lparr>params = [0], options = Some 3\<rparr>], state_m = Map.empty\<rparr>"

definition ex_dup :: "(int, int) OptimizerBase" where
  "ex_dup = \<lparr>parameters_m = [2], defaults_m = 10,
             param_groups_m = [\<lparr>params = [2], options = Some 3\<rparr>], state_m = Map.empty\<rparr>"

definition ex_flat :: "(int, int) OptimizerBase" where
  "ex_flat = \<lparr>parameters_m = [0, 1], defaults_m = 10, param_groups_m = [],
              state_m = Map.empty\<rparr>"

definition ex_six :: "(int, int) OptimizerBase" where
  "ex_six = \<lparr>parameters_m = [0, 1, 2, 3, 4, 5], defaults_m = 10, param_groups_m = [],
             state_m = Map.empty\<rparr>"

section \<open>Properties\<close>

subsection \<open>Shared lemmas\<close>

lemma check_is_leaf_iff:
  "check_is_leaf H ps
     = (if \<forall>p \<in> set ps. is_leaf (cell H p) then Inr () else Inl InvalidParameter)"
  by (induction ps) auto

lemma zero_grad_body_cell:
  "cell (zero_grad_body p H) = (cell H)(p := zeroed (cell H p))"
  by (auto simp: zero_grad_body_def zeroed_def split: option.splits)

lemma zero_grad_body_fresh: "fresh (zero_grad_body p H) = fresh H"
  by (simp add: zero_grad_body_def split: option.splits)

lemma zeroed_idem: "zeroed (zeroed t) = zeroed t"
  by (simp add: zeroed_def zero_inplace_def detach_inplace_def split: option.splits)

lemma fold_zero_grad_body_cell:
  "cell (fold zero_grad_body ps H) h = (if h \<in> set ps then zeroed (cell H h) else cell H h)"
  by (induction ps arbitrary: H) (auto simp: zero_grad_body_cell zeroed_idem)

lemma fold_zero_grad_body_fresh: "fresh (fold zero_grad_body ps H) = fresh H"
  by (induction ps arbitrary: H) (auto simp: zero_grad_body_fresh)

lemma fold_groups_concat:
  "fold (\<lambda>group. fold zero_grad_body (params group)) gs H
     = fold zero_grad_body (concat (map params gs)) H"
  by (induction gs arbitrary: H) auto

lemma zero_grad_visits_fold: "zero_grad opt H = fold zero_grad_body (zero_grad_visits opt) H"
  by (simp add: zero_grad_def zero_grad_visits_def fold_groups_concat)

lemma count_list_app: "count_list (xs @ ys) h = count_list xs h + count_list ys h"
  by (induction xs) auto

lemma count_list_concat_sum:
  "count_list (concat xss) h = sum_list (map (\<lambda>xs. count_list xs h) xss)"
  by (induction xss) (auto simp: count_list_app)

lemma heap_eqI: "cell A = cell B \<Longrightarrow> fresh A = fresh B \<Longrightarrow> (A :: heap) = B"
  by simp

lemma unat_plus_one:
  "(index :: 'w::len word) + 1 \<noteq> 0 \<Longrightarrow> unat (index + 1) = Suc (unat index)"
  by (simp add: add.commute unatSuc)

lemma zeros_like_eq:
  "zeros_like p H = (fresh H,
     H\<lparr>cell := (cell H)(fresh H := \<lparr>is_leaf = True, device = device (cell H p),
          dtype = dtype (cell H p), sizes = sizes (cell H p),
          data = replicate (length (data (cell H p))) 0, grad = None\<rparr>),
       fresh := Suc (fresh H)\<rparr>)"
  by (simp add: zeros_like_def alloc_def Let_def map_replicate_const)

lemma tensor_to_eq:
  "tensor_to cast b dev dt H = (fresh H,
     H\<lparr>cell := (cell H)(fresh H := \<lparr>is_leaf = True, device = dev, dtype = dt,
          sizes = sizes (cell H b), data = map (cast dt) (data (cell H b)), grad = None\<rparr>),
       fresh := Suc (fresh H)\<rparr>)"
  by (simp add: tensor_to_def alloc_def Let_def)

lemma push_back_fits:
  "length buffers < max_size \<Longrightarrow> push_back max_size z buffers = Inr (buffers @ [z])"
  by (simp add: push_back_def)

text \<open>One round of the growth loop, when the parameter exists and the vector is not full.\<close>

lemma buffer_at_grow_step:
  "i \<le> index \<Longrightarrow> i < length ps \<Longrightarrow> length buffers < ms
     \<Longrightarrow> buffer_at_grow ms ps index i buffers H
         = buffer_at_grow ms ps index (Suc i) (buffers @ [fst (zeros_like (ps ! i) H)])
             (snd (zeros_like (ps ! i) H))"
  by (subst buffer_at_grow.simps) (simp add: push_back_fits split: prod.splits)


lemma buffer_at_grow_returns:
  "index < length ps \<Longrightarrow> index < ms \<Longrightarrow> i \<le> Suc index \<Longrightarrow> length buffers = i
     \<Longrightarrow> buffer_at_grow ms ps index i buffers H = (r, bs', H')
     \<Longrightarrow> r = Inr () \<and> length bs' = Suc index \<and> take i bs' = buffers
         \<and> fresh H' = fresh H + (Suc index - i) \<and> (\<forall>h < fresh H. cell H' h = cell H h)"
proof (induction "Suc index - i" arbitrary: i buffers H)
  case 0
  then have e: "\<not> i \<le> index" "i = Suc index" by simp_all
  then have "buffer_at_grow ms ps index i buffers H = (Inr (), buffers, H)"
    by (subst buffer_at_grow.simps) simp
  with 0 e show ?case by auto
next
  case (Suc n)
  then have ii: "i \<le> index" by simp
  with Suc.prems have il: "i < length ps" and lt: "length buffers < ms" by simp_all
  let ?z = "fst (zeros_like (ps ! i) H)" and ?H1 = "snd (zeros_like (ps ! i) H)"
  from Suc.prems(5) buffer_at_grow_step [OF ii il lt, of H]
  have rec: "buffer_at_grow ms ps index (Suc i) (buffers @ [?z]) ?H1 = (r, bs', H')" by simp
  from Suc.hyps(2) have n: "n = Suc index - Suc i" by simp
  from ii have si: "Suc i \<le> Suc index" by simp
  from Suc.prems(4) have len: "length (buffers @ [?z]) = Suc i" by simp
  from Suc.hyps(1) [OF n Suc.prems(1,2) si len rec]
  have ih: "r = Inr ()" "length bs' = Suc index" "take (Suc i) bs' = buffers @ [?z]"
    "fresh H' = fresh ?H1 + (Suc index - Suc i)" "\<forall>h < fresh ?H1. cell H' h = cell ?H1 h"
    by simp_all
  have H1: "fresh ?H1 = Suc (fresh H)" "\<forall>h < fresh H. cell ?H1 h = cell H h"
    by (simp_all add: zeros_like_eq)
  from ih(3) have "take i (take (Suc i) bs') = take i (buffers @ [?z])" by simp
  with Suc.prems(4) have tk: "take i bs' = buffers" by (simp add: min_def)
  from ih(1,2) tk ih(4,5) H1 ii show ?case by auto
qed

lemma buffer_at_grow_cells:
  "index < length ps \<Longrightarrow> index < ms \<Longrightarrow> \<forall>p \<in> set ps. p < fresh H
     \<Longrightarrow> length buffers = i
     \<Longrightarrow> buffer_at_grow ms ps index i buffers H = (r, bs', H')
     \<Longrightarrow> i \<le> k \<Longrightarrow> k \<le> index
     \<Longrightarrow> zeros_like_of (cell H' (bs' ! k)) (cell H (ps ! k))"
proof (induction "k - i" arbitrary: i buffers H)
  case 0
  then have ki: "k = i" by simp
  with 0 have ii: "i \<le> index" and il: "i < length ps" and lt: "length buffers < ms" by simp_all
  let ?z = "fst (zeros_like (ps ! i) H)" and ?H1 = "snd (zeros_like (ps ! i) H)"
  from 0(6) buffer_at_grow_step [OF ii il lt, of H]
  have rec: "buffer_at_grow ms ps index (Suc i) (buffers @ [?z]) ?H1 = (r, bs', H')" by simp
  from 0(5) have len: "length (buffers @ [?z]) = Suc i" by simp
  from ii have si: "Suc i \<le> Suc index" by simp
  from buffer_at_grow_returns [OF 0(2,3) si len rec]
  have ret: "take (Suc i) bs' = buffers @ [?z]" "\<forall>h < fresh ?H1. cell H' h = cell ?H1 h"
    by simp_all
  from ret(1) have "take (Suc i) bs' ! i = (buffers @ [?z]) ! i" by simp
  moreover from 0(5) have "(buffers @ [?z]) ! i = ?z" by (auto simp: nth_append)
  ultimately have "bs' ! i = ?z" by simp
  moreover have "?z = fresh H" "fresh ?H1 = Suc (fresh H)"
    "zeros_like_of (cell ?H1 (fresh H)) (cell H (ps ! i))"
    by (simp_all add: zeros_like_eq zeros_like_of_def)
  ultimately show ?case using ki ret(2) by simp
next
  case (Suc n)
  then have ki: "Suc i \<le> k" by simp
  with Suc.prems have ii: "i \<le> index" and il: "i < length ps" and lt: "length buffers < ms"
    by simp_all
  let ?z = "fst (zeros_like (ps ! i) H)" and ?H1 = "snd (zeros_like (ps ! i) H)"
  from Suc.prems(5) buffer_at_grow_step [OF ii il lt, of H]
  have rec: "buffer_at_grow ms ps index (Suc i) (buffers @ [?z]) ?H1 = (r, bs', H')" by simp
  from Suc.prems(4) have len: "length (buffers @ [?z]) = Suc i" by simp
  from Suc.hyps(2) have n: "n = k - Suc i" by simp
  have H1: "fresh ?H1 = Suc (fresh H)" "\<forall>h < fresh H. cell ?H1 h = cell H h"
    by (simp_all add: zeros_like_eq)
  from Suc.prems(3) H1(1) have wf1: "\<forall>p \<in> set ps. p < fresh ?H1" by auto
  from Suc.hyps(1) [OF n Suc.prems(1,2) wf1 len rec ki Suc.prems(7)]
  have a: "zeros_like_of (cell H' (bs' ! k)) (cell ?H1 (ps ! k))" .
  from Suc.prems(1,3,7) H1(2) have c: "cell ?H1 (ps ! k) = cell H (ps ! k)" by simp
  from a show ?case unfolding c .
qed

lemma buffer_at_Tensor_in_vector:
  "index < length buffers \<Longrightarrow>
   buffer_at_Tensor ms cast opt buffers index H =
     (if \<not> index < length (parameters_m opt) then (Inl OutOfRange, buffers, H)
      else if device (cell H (buffers ! index)) \<noteq> device (cell H (parameters_m opt ! index))
              \<or> dtype (cell H (buffers ! index)) \<noteq> dtype (cell H (parameters_m opt ! index))
      then (Inr (fresh H), buffers[index := fresh H],
            snd (tensor_to cast (buffers ! index) (device (cell H (parameters_m opt ! index)))
                   (dtype (cell H (parameters_m opt ! index))) H))
      else (Inr (buffers ! index), buffers, H))"
  by (simp add: buffer_at_Tensor_def tensor_to_eq Let_def)



lemma buffer_at_Tensor_grown:
  "length buffers \<le> index \<Longrightarrow> index \<le> ms \<Longrightarrow> index < length b1
     \<Longrightarrow> buffer_at_grow ms (parameters_m opt) index (length buffers) buffers H
           = (Inr (), b1, H1)
     \<Longrightarrow> buffer_at_Tensor ms cast opt buffers index H = buffer_at_Tensor ms cast opt b1 index H1"
  by (simp add: buffer_at_Tensor_def reserve_def)

text \<open>What the call does to a slot that is in the vector when the check is reached.\<close>

lemma buffer_at_Tensor_slot:
  assumes "index < length (parameters_m opt)" and "index < length b1"
    and "buffer_at_Tensor ms cast opt b1 index H1 = (r, buffers', H')"
  shows "r = Inr (buffers' ! index) \<and> index < length buffers'
    \<and> device (cell H' (buffers' ! index)) = device (cell H' (parameters_m opt ! index))
    \<and> dtype (cell H' (buffers' ! index)) = dtype (cell H' (parameters_m opt ! index))
    \<and> (if device (cell H1 (b1 ! index)) = device (cell H1 (parameters_m opt ! index))
           \<and> dtype (cell H1 (b1 ! index)) = dtype (cell H1 (parameters_m opt ! index))
        then buffers' = b1 \<and> H' = H1
        else buffers' = b1[index := fresh H1] \<and> fresh H' = Suc (fresh H1)
             \<and> cell H' (fresh H1)
                 = \<lparr>is_leaf = True, device = device (cell H1 (parameters_m opt ! index)),
                    dtype = dtype (cell H1 (parameters_m opt ! index)),
                    sizes = sizes (cell H1 (b1 ! index)),
                    data = map (cast (dtype (cell H1 (parameters_m opt ! index))))
                             (data (cell H1 (b1 ! index))),
                    grad = None\<rparr>
             \<and> (\<forall>h. h \<noteq> fresh H1 \<longrightarrow> cell H' h = cell H1 h))
    \<and> buffer_at_Tensor ms cast opt buffers' index H' = (r, buffers', H')"
proof -
  let ?p = "parameters_m opt ! index"
  note c = assms(3) [unfolded buffer_at_Tensor_in_vector [OF assms(2)]]
  show ?thesis
  proof (cases "device (cell H1 (b1 ! index)) = device (cell H1 ?p)
                \<and> dtype (cell H1 (b1 ! index)) = dtype (cell H1 ?p)")
    case True
    with c assms(1) have e: "r = Inr (b1 ! index)" "buffers' = b1" "H' = H1" by auto
    with True assms(1,2) show ?thesis
      by (simp add: buffer_at_Tensor_in_vector)
  next
    case False
    with c assms(1) have e: "r = Inr (fresh H1)" "buffers' = b1[index := fresh H1]"
      "H' = snd (tensor_to cast (b1 ! index) (device (cell H1 ?p)) (dtype (cell H1 ?p)) H1)"
      by auto
    from e(2) assms(2) have i: "buffers' ! index = fresh H1" "index < length buffers'"
      by simp_all
    from e(3) have d: "cell H' (fresh H1)
        = \<lparr>is_leaf = True, device = device (cell H1 ?p), dtype = dtype (cell H1 ?p),
           sizes = sizes (cell H1 (b1 ! index)),
           data = map (cast (dtype (cell H1 ?p))) (data (cell H1 (b1 ! index))),
           grad = None\<rparr>"
      "\<forall>h. h \<noteq> fresh H1 \<longrightarrow> cell H' h = cell H1 h" "fresh H' = Suc (fresh H1)"
      by (simp_all add: tensor_to_eq)
    from d(1,2) have m: "device (cell H' (fresh H1)) = device (cell H' ?p)"
      "dtype (cell H' (fresh H1)) = dtype (cell H' ?p)"
      by (cases "?p = fresh H1"; simp)+
    from i m assms(1) have s: "buffer_at_Tensor ms cast opt buffers' index H'
        = (Inr (buffers' ! index), buffers', H')"
      by (simp add: buffer_at_Tensor_in_vector)
    from False e(1,2) i m s d show ?thesis by auto
  qed
qed

subsection \<open>Construction from a flat vector\<close>

text \<open>
  C1, as the code has it. The constructor that takes only a vector of handles performs no
  leaf check and cannot fail: for every vector, whether or not it holds a handle that is
  not a leaf, the construction succeeds, the flat parameter list of the new optimizer is
  the given vector, its defaults are the default-initialised options, and its group list
  and state map are empty.
\<close>

theorem OptimizerBase_of_parameters_unchecked:
  "\<exists>opt. OptimizerBase_of_parameters d0 ps = Inr opt \<and> parameters_m opt = ps
     \<and> defaults_m opt = d0 \<and> param_groups_m opt = [] \<and> state_m opt = Map.empty"
  by (simp add: OptimizerBase_of_parameters_def)

text \<open>
  C1 as stated fails: handle 1 of the example store is not a leaf, and the construction
  from the vector of the handles 0 and 1 returns an optimizer instead of failing with
  \<open>InvalidParameter\<close>.
\<close>

theorem OptimizerBase_of_parameters_non_leaf:
  "\<not> is_leaf (cell ex_heap 1) \<and> 1 \<in> set (parameters_m ex_flat)
   \<and> OptimizerBase_of_parameters 10 (parameters_m ex_flat) = Inr ex_flat
   \<and> OptimizerBase_of_parameters 10 (parameters_m ex_flat) \<noteq> Inl InvalidParameter"
  by (simp add: OptimizerBase_of_parameters_def ex_flat_def ex_heap_def leaf_tensor_def)

text \<open>
  The constructor that takes the same vector together with defaults goes through
  \<open>add_param_group\<close> and does reject it.
\<close>

lemma OptimizerBase_of_params_defaults_rejects:
  "OptimizerBase_of_params_defaults ex_heap (parameters_m ex_flat) (10 :: int)
     = (Inl InvalidParameter :: error + (int, int) OptimizerBase)"
  by (simp add: OptimizerBase_of_params_defaults_def OptimizerBase_of_groups_def
      add_param_group_def ex_flat_def ex_heap_def leaf_tensor_def)

subsection \<open>Visits of zero_grad\<close>

text \<open>
  C2, as the code has it. \<open>zero_grad\<close> is the loop body run over \<open>zero_grad_visits\<close>, and
  the number of times it visits a handle is the number of occurrences of the handle in
  the flat parameter list plus its occurrences in the lists of all groups: nothing is
  deduplicated, and a handle is visited at most once exactly when it occurs at most once
  in all these lists together.
\<close>

theorem zero_grad_visit_count:
  "zero_grad opt H = fold zero_grad_body (zero_grad_visits opt) H
   \<and> count_list (zero_grad_visits opt) h
       = count_list (parameters_m opt) h
         + sum_list (map (\<lambda>group. count_list (params group) h) (param_groups_m opt))"
  by (simp add: zero_grad_visits_fold)
     (simp add: zero_grad_visits_def count_list_app count_list_concat_sum comp_def)

text \<open>
  C2 as stated fails: with handle 2 in the flat list and in a group, \<open>zero_grad\<close> runs its
  loop body on handle 2 twice.
\<close>

theorem zero_grad_visits_twice:
  "zero_grad_visits ex_dup = [2, 2]
   \<and> zero_grad ex_dup ex_heap = zero_grad_body 2 (zero_grad_body 2 ex_heap)
   \<and> \<not> count_list (zero_grad_visits ex_dup) 2 \<le> 1"
  by (simp add: zero_grad_visits_def zero_grad_def ex_dup_def)

subsection \<open>Registration of a group\<close>

text \<open>
  C3. When some handle of the group is not a leaf, \<open>add_param_group\<close> throws
  \<open>InvalidParameter\<close> and leaves the optimizer, with its group list and every other
  member, as it was. When all handles are leaves, it appends exactly one group, with the
  handles of the given one, to the group list and changes nothing else.
\<close>

theorem add_param_group_atomic:
  "((\<exists>p \<in> set (params g). \<not> is_leaf (cell H p))
      \<longrightarrow> add_param_group H g opt = (Inl InvalidParameter, opt))
   \<and> ((\<forall>p \<in> set (params g). is_leaf (cell H p))
      \<longrightarrow> (\<exists>g'. add_param_group H g opt
                  = (Inr (), opt\<lparr>param_groups_m := param_groups_m opt @ [g']\<rparr>)
                \<and> params g' = params g))"
  by (auto simp: add_param_group_def check_is_leaf_iff set_options_def Let_def)

theorem add_param_group_atomic_witness:
  "add_param_group ex_heap \<lparr>params = [0, 1], options = None\<rparr> ex_opt
     = (Inl InvalidParameter, ex_opt)
   \<and> (\<exists>g'. add_param_group ex_heap \<lparr>params = [0, 2], options = None\<rparr> ex_opt
           = (Inr (), ex_opt\<lparr>param_groups_m := param_groups_m ex_opt @ [g']\<rparr>)
         \<and> params g' = [0, 2])"
proof -
  have a: "\<exists>p \<in> set (params \<lparr>params = [0, 1], options = (None :: int option)\<rparr>).
             \<not> is_leaf (cell ex_heap p)"
    by (simp add: ex_heap_def leaf_tensor_def)
  have b: "\<forall>p \<in> set (params \<lparr>params = [0, 2], options = (None :: int option)\<rparr>).
             is_leaf (cell ex_heap p)"
    by (simp add: ex_heap_def leaf_tensor_def)
  from a b add_param_group_atomic [of "\<lparr>params = [0, 1], options = None\<rparr>" ex_heap ex_opt]
    add_param_group_atomic [of "\<lparr>params = [0, 2], options = None\<rparr>" ex_heap ex_opt]
  show ?thesis by simp
qed

text \<open>
  C4. A group registered without options holds, right after the call, the defaults the
  optimizer had at the call, and a later change of the optimizer's defaults does not
  change them; a group registered with options is stored as given.
\<close>

theorem add_param_group_options:
  "(\<not> has_options g \<and> fst (add_param_group H g opt) = Inr ()
      \<longrightarrow> options (last (param_groups_m (snd (add_param_group H g opt))))
            = Some (defaults_m opt)
        \<and> (\<forall>d. options (last (param_groups_m
                    ((snd (add_param_group H g opt))\<lparr>defaults_m := d\<rparr>)))
                 = Some (defaults_m opt)))
   \<and> (has_options g \<and> fst (add_param_group H g opt) = Inr ()
      \<longrightarrow> last (param_groups_m (snd (add_param_group H g opt))) = g
        \<and> (\<forall>d. last (param_groups_m ((snd (add_param_group H g opt))\<lparr>defaults_m := d\<rparr>))
                 = g))"
  by (auto simp: add_param_group_def set_options_def has_options_def Let_def
      split: sum.splits)

theorem add_param_group_options_witness:
  "options (last (param_groups_m
      (snd (add_param_group ex_heap \<lparr>params = [0, 2], options = None\<rparr> ex_opt)))) = Some 10
   \<and> options (last (param_groups_m
      ((snd (add_param_group ex_heap \<lparr>params = [0, 2], options = None\<rparr> ex_opt))
         \<lparr>defaults_m := 77\<rparr>))) = Some 10
   \<and> last (param_groups_m
      (snd (add_param_group ex_heap \<lparr>params = [0, 2], options = Some 4\<rparr> ex_opt)))
       = \<lparr>params = [0, 2], options = Some 4\<rparr>"
proof -
  have a: "\<not> has_options \<lparr>params = [0, 2], options = (None :: int option)\<rparr>
           \<and> fst (add_param_group ex_heap \<lparr>params = [0, 2], options = None\<rparr> ex_opt) = Inr ()"
    by (simp add: has_options_def add_param_group_def ex_heap_def leaf_tensor_def)
  have b: "has_options \<lparr>params = [0, 2], options = Some (4 :: int)\<rparr>
           \<and> fst (add_param_group ex_heap \<lparr>params = [0, 2], options = Some 4\<rparr> ex_opt) = Inr ()"
    by (simp add: has_options_def add_param_group_def ex_heap_def leaf_tensor_def)
  have d: "defaults_m ex_opt = 10" by (simp add: ex_opt_def)
  from a b d
    add_param_group_options [of "\<lparr>params = [0, 2], options = None\<rparr>" ex_heap ex_opt]
    add_param_group_options [of "\<lparr>params = [0, 2], options = Some 4\<rparr>" ex_heap ex_opt]
  show ?thesis by simp
qed

subsection \<open>Idempotence of zero_grad\<close>

text \<open>
  C5. Running \<open>zero_grad\<close> a second time right after the first leaves the store as the
  first run left it, and a tensor whose gradient is undefined is the same tensor after
  \<open>zero_grad\<close>, in particular still without gradient.
\<close>

theorem zero_grad_idempotent:
  "zero_grad opt (zero_grad opt H) = zero_grad opt H
   \<and> (grad (cell H p) = None \<longrightarrow> cell (zero_grad opt H) p = cell H p)"
proof
  show "zero_grad opt (zero_grad opt H) = zero_grad opt H"
    by (rule heap_eqI)
       (auto simp: zero_grad_visits_fold fold_zero_grad_body_cell fold_zero_grad_body_fresh
          zeroed_idem)
  show "grad (cell H p) = None \<longrightarrow> cell (zero_grad opt H) p = cell H p"
    by (simp add: zero_grad_visits_fold fold_zero_grad_body_cell zeroed_def)
qed

theorem zero_grad_idempotent_witness:
  "grad (cell ex_heap 0) = None \<and> cell (zero_grad ex_dup ex_heap) 0 = cell ex_heap 0
   \<and> zero_grad ex_dup (zero_grad ex_dup ex_heap) = zero_grad ex_dup ex_heap
   \<and> grad (cell (zero_grad ex_dup ex_heap) 2) = Some \<lparr>attached = False, gdata = [0, 0]\<rparr>"
proof -
  have g: "grad (cell ex_heap 0) = None" by (simp add: ex_heap_def leaf_tensor_def)
  have z: "grad (cell (zero_grad ex_dup ex_heap) 2) = Some \<lparr>attached = False, gdata = [0, 0]\<rparr>"
    by (simp add: zero_grad_def ex_dup_def zero_grad_body_def ex_heap_def leaf_tensor_def
      zero_inplace_def detach_inplace_def)
  from g z zero_grad_idempotent [of ex_dup ex_heap 0] show ?thesis by simp
qed

subsection \<open>The generic buffer_at\<close>

text \<open>
  C6, as the code has it. For an index with \<open>index + 1\<close> within \<open>max_size()\<close>: when
  the index is not in the vector, the call grows the vector to length \<open>index + 1\<close>,
  every slot from the old size up to \<open>index\<close> holds zero, every older slot is
  unchanged, and the slot \<open>index\<close> is returned. When the index is not in the vector
  and \<open>index + 1\<close> is beyond \<open>max_size()\<close> without wrapping around, the call throws
  \<open>std::length_error\<close>. For every index inside the vector, the vector is unchanged and
  the slot \<open>index\<close> is returned.
\<close>

theorem buffer_at_generic:
  fixes index max_size :: "'w::len word" and buffers :: "'a::zero list"
  shows "(length buffers \<le> unat index \<and> unat index < unat max_size
            \<longrightarrow> (\<exists>buffers'. buffer_at max_size dflt buffers index = Inr (buffers', unat index)
                   \<and> length buffers' = unat index + 1
                   \<and> (\<forall>k < length buffers. buffers' ! k = buffers ! k)
                   \<and> (\<forall>k. length buffers \<le> k \<and> k \<le> unat index \<longrightarrow> buffers' ! k = 0)))
         \<and> (length buffers \<le> unat index \<and> unat max_size \<le> unat index \<and> index + 1 \<noteq> 0
            \<longrightarrow> buffer_at max_size dflt buffers index = Inl LengthError)
         \<and> (unat index < length buffers
            \<longrightarrow> buffer_at max_size dflt buffers index = Inr (buffers, unat index))"
proof (intro conjI impI)
  assume a: "length buffers \<le> unat index \<and> unat index < unat max_size"
  then have "index \<noteq> - 1"
    by (metis max_word_max not_less word_le_nat_alt)
  then have "index + 1 \<noteq> 0"
    by (metis add.commute add_eq_0_iff)
  then have u: "unat (index + 1) = Suc (unat index)" by (simp add: unat_plus_one)
  let ?b = "buffers @ replicate (Suc (unat index) - length buffers) 0"
  from a u have "buffer_at max_size dflt buffers index = Inr (?b, unat index)"
    by (simp add: buffer_at_def resize_def fill_from_def)
  moreover from a have "length ?b = unat index + 1" by simp
  moreover have "\<forall>k < length buffers. ?b ! k = buffers ! k" by (simp add: nth_append)
  moreover have "\<forall>k. length buffers \<le> k \<and> k \<le> unat index \<longrightarrow> ?b ! k = 0"
    by (auto simp: nth_append)
  ultimately show "\<exists>buffers'. buffer_at max_size dflt buffers index = Inr (buffers', unat index)
                   \<and> length buffers' = unat index + 1
                   \<and> (\<forall>k < length buffers. buffers' ! k = buffers ! k)
                   \<and> (\<forall>k. length buffers \<le> k \<and> k \<le> unat index \<longrightarrow> buffers' ! k = 0)"
    by blast
next
  assume a: "length buffers \<le> unat index \<and> unat max_size \<le> unat index \<and> index + 1 \<noteq> 0"
  then have u: "unat (index + 1) = Suc (unat index)" by (simp add: unat_plus_one)
  with a show "buffer_at max_size dflt buffers index = Inl LengthError"
    by (simp add: buffer_at_def resize_def)
next
  assume "unat index < length buffers"
  then show "buffer_at max_size dflt buffers index = Inr (buffers, unat index)"
    by (simp add: buffer_at_def)
qed

theorem buffer_at_generic_witness:
  "buffer_at (1152921504606846975 :: 64 word) (9 :: int) [7] 3 = Inr ([7, 0, 0, 0], 3)
   \<and> buffer_at (1152921504606846975 :: 64 word) (9 :: int) [7, 8] 1 = Inr ([7, 8], 1)
   \<and> buffer_at (1152921504606846975 :: 64 word) (9 :: int) [7] 1152921504606846975
       = Inl LengthError"
proof -
  let ?ms = "1152921504606846975 :: 64 word"
  have a: "length [7 :: int] \<le> unat (3 :: 64 word) \<and> unat (3 :: 64 word) < unat ?ms" by simp
  have b: "unat (1 :: 64 word) < length [7 :: int, 8]" by simp
  have l: "length [7 :: int] \<le> unat ?ms \<and> unat ?ms \<le> unat ?ms \<and> ?ms + 1 \<noteq> 0" by simp
  have r: "replicate 3 (0 :: int) = [0, 0, 0]" by (simp add: numeral_3_eq_3)
  have c: "buffer_at ?ms (9 :: int) [7] 3 = Inr ([7, 0, 0, 0], 3)"
    by (simp add: buffer_at_def resize_def fill_from_def r)
  from a b c l buffer_at_generic [of "[7 :: int]" "3 :: 64 word" ?ms 9]
    buffer_at_generic [of "[7 :: int, 8]" "1 :: 64 word" ?ms 9]
    buffer_at_generic [of "[7 :: int]" ?ms ?ms 9]
  show ?thesis by simp
qed

text \<open>
  C6 as stated fails in two places, shown for a 64-bit \<open>size_t\<close> and a \<open>max_size()\<close>
  one below the 60th power of 2. At the largest index \<open>index + 1\<close> is 0, \<open>resize\<close>
  empties the vector instead of growing it, and the slot \<open>index\<close> that the call returns
  is outside the vector. At the index \<open>max_size()\<close> the vector would need one element
  more than it can hold, and \<open>resize\<close> throws.
\<close>

theorem buffer_at_wraps:
  "length [7 :: int] \<le> unat (18446744073709551615 :: 64 word)
   \<and> resize (unat (1152921504606846975 :: 64 word)) (0 :: int)
        (unat ((18446744073709551615 :: 64 word) + 1)) [7] = Inr []
   \<and> buffer_at (1152921504606846975 :: 64 word) (0 :: int) [7] 18446744073709551615
       = Inl UndefinedBehaviour
   \<and> length [7 :: int] \<le> unat (1152921504606846975 :: 64 word)
   \<and> buffer_at (1152921504606846975 :: 64 word) (0 :: int) [7] 1152921504606846975
       = Inl LengthError"
  by (simp add: buffer_at_def resize_def fill_from_def)

subsection \<open>The flat list is not touched by registration\<close>

text \<open>
  C9. \<open>size()\<close> is the length of the flat parameter list and \<open>parameters()\<close> is that
  list. \<open>add_param_group\<close> leaves the flat list, the state map and the defaults as they
  were, so \<open>size()\<close> and \<open>parameters()\<close> give the same before and after; when it
  returns, the group list has grown by the given group, with the defaults as its options
  when it had none, and when it throws the optimizer is unchanged.
\<close>

theorem size_parameters_frame:
  "size_opt opt = length (parameters_m opt) \<and> parameters opt = parameters_m opt
   \<and> (add_param_group H g opt = (r, opt')
      \<longrightarrow> parameters_m opt' = parameters_m opt \<and> state_m opt' = state_m opt
        \<and> defaults_m opt' = defaults_m opt
        \<and> size_opt opt' = size_opt opt \<and> parameters opt' = parameters opt
        \<and> (r = Inr () \<longrightarrow> param_groups_m opt'
              = param_groups_m opt @ [if has_options g then g
                                      else set_options (defaults_m opt) g])
        \<and> (r \<noteq> Inr () \<longrightarrow> opt' = opt))"
  by (auto simp: add_param_group_def size_opt_def parameters_def Let_def split: sum.splits)

theorem size_parameters_frame_witness:
  "size_opt ex_opt = 2 \<and> parameters ex_opt = [0, 2]
   \<and> size_opt (snd (add_param_group ex_heap \<lparr>params = [0, 2], options = None\<rparr> ex_opt)) = 2
   \<and> parameters (snd (add_param_group ex_heap \<lparr>params = [0, 2], options = None\<rparr> ex_opt))
       = [0, 2]
   \<and> param_groups_m (snd (add_param_group ex_heap \<lparr>params = [0, 2], options = None\<rparr> ex_opt))
       = [\<lparr>params = [0], options = Some 3\<rparr>, \<lparr>params = [0, 2], options = Some 10\<rparr>]
   \<and> snd (add_param_group ex_heap \<lparr>params = [0, 1], options = None\<rparr> ex_opt) = ex_opt"
proof -
  let ?ok = "add_param_group ex_heap \<lparr>params = [0, 2], options = None\<rparr> ex_opt"
  let ?bad = "add_param_group ex_heap \<lparr>params = [0, 1], options = None\<rparr> ex_opt"
  have a: "?ok = (Inr (), snd ?ok)"
    by (simp add: add_param_group_def ex_heap_def leaf_tensor_def)
  have b: "?bad = (Inl InvalidParameter, snd ?bad)"
    by (simp add: add_param_group_def ex_heap_def leaf_tensor_def)
  have e: "parameters_m ex_opt = [0, 2]" "defaults_m ex_opt = 10"
    "param_groups_m ex_opt = [\<lparr>params = [0], options = Some 3\<rparr>]"
    by (simp_all add: ex_opt_def)
  have h: "\<not> has_options \<lparr>params = [0, 2], options = (None :: int option)\<rparr>"
    by (simp add: has_options_def)
  from a b e h
    size_parameters_frame [of ex_opt ex_heap "\<lparr>params = [0, 2], options = None\<rparr>" "Inr ()" "snd ?ok"]
    size_parameters_frame [of ex_opt ex_heap "\<lparr>params = [0, 1], options = None\<rparr>"
      "Inl InvalidParameter" "snd ?bad"]
  show ?thesis by (simp add: set_options_def)
qed

subsection \<open>The Tensor overload of buffer_at\<close>

text \<open>
  C7. For every index of the flat parameter list (a vector, so not longer than
  \<open>max_size()\<close>), the call returns the tensor in the slot \<open>index\<close> of the vector, and
  after the call that tensor has the device and the element type of the parameter at
  \<open>index\<close>. When the slot existed before the call, nothing is allocated or stored if
  device and element type already agreed; otherwise exactly one tensor is allocated and
  stored in the slot, and it is the cast of the old buffer: the parameter's device and
  element type, the old buffer's shape, and the old buffer's elements cast to the
  parameter's element type. When the slot is new and the parameters are allocated
  handles, the old slots are kept, one tensor is allocated for every new slot, each new
  slot holds zeros shaped and placed like its own parameter, and nothing is cast. A second
  call on the vector and store the first one left returns the same tensor and changes
  neither the vector nor the store, so every later call does the same.
\<close>

theorem buffer_at_Tensor_matches:
  assumes "index < length (parameters_m opt)"
    and "length (parameters_m opt) \<le> max_size"
    and "buffer_at_Tensor max_size cast opt buffers index H = (r, buffers', H')"
  shows "r = Inr (buffers' ! index) \<and> index < length buffers'
    \<and> device (cell H' (buffers' ! index)) = device (cell H' (parameters_m opt ! index))
    \<and> dtype (cell H' (buffers' ! index)) = dtype (cell H' (parameters_m opt ! index))
    \<and> (index < length buffers \<longrightarrow>
         (if device (cell H (buffers ! index)) = device (cell H (parameters_m opt ! index))
             \<and> dtype (cell H (buffers ! index)) = dtype (cell H (parameters_m opt ! index))
          then buffers' = buffers \<and> H' = H
          else buffers' = buffers[index := fresh H] \<and> fresh H' = Suc (fresh H)
               \<and> cell H' (fresh H)
                   = \<lparr>is_leaf = True, device = device (cell H (parameters_m opt ! index)),
                      dtype = dtype (cell H (parameters_m opt ! index)),
                      sizes = sizes (cell H (buffers ! index)),
                      data = map (cast (dtype (cell H (parameters_m opt ! index))))
                               (data (cell H (buffers ! index))),
                      grad = None\<rparr>
               \<and> (\<forall>h. h \<noteq> fresh H \<longrightarrow> cell H' h = cell H h)))
    \<and> (length buffers \<le> index \<and> (\<forall>p \<in> set (parameters_m opt). p < fresh H) \<longrightarrow>
         length buffers' = Suc index \<and> take (length buffers) buffers' = buffers
         \<and> fresh H' = fresh H + (Suc index - length buffers)
         \<and> (\<forall>h < fresh H. cell H' h = cell H h)
         \<and> (\<forall>k. length buffers \<le> k \<and> k \<le> index \<longrightarrow>
               zeros_like_of (cell H' (buffers' ! k)) (cell H (parameters_m opt ! k))))
    \<and> buffer_at_Tensor max_size cast opt buffers' index H' = (r, buffers', H')"
proof (cases "index < length buffers")
  case True
  from buffer_at_Tensor_slot [OF assms(1) True assms(3)] True show ?thesis by simp
next
  case False
  let ?ps = "parameters_m opt"
  from False have le: "length buffers \<le> index" by simp
  from assms(1,2) have ms: "index < max_size" "index \<le> max_size" by simp_all
  obtain r1 b1 H1 where g: "buffer_at_grow max_size ?ps index (length buffers) buffers H
      = (r1, b1, H1)"
    by (metis prod_cases3)
  from le have si: "length buffers \<le> Suc index" by simp
  from buffer_at_grow_returns [OF assms(1) ms(1) si refl g]
  have ret: "r1 = Inr ()" "length b1 = Suc index" "take (length buffers) b1 = buffers"
    "fresh H1 = fresh H + (Suc index - length buffers)" "\<forall>h < fresh H. cell H1 h = cell H h"
    by simp_all
  from ret(2) have ib: "index < length b1" by simp
  from g ret(1) buffer_at_Tensor_grown [OF le ms(2) ib, of opt H H1 cast] assms(3)
  have c: "buffer_at_Tensor max_size cast opt b1 index H1 = (r, buffers', H')" by simp
  note slot = buffer_at_Tensor_slot [OF assms(1) ib c]
  have grown: "length buffers' = Suc index \<and> take (length buffers) buffers' = buffers
         \<and> fresh H' = fresh H + (Suc index - length buffers)
         \<and> (\<forall>h < fresh H. cell H' h = cell H h)
         \<and> (\<forall>k. length buffers \<le> k \<and> k \<le> index \<longrightarrow>
               zeros_like_of (cell H' (buffers' ! k)) (cell H (?ps ! k)))"
    if wf: "\<forall>p \<in> set ?ps. p < fresh H"
  proof -
    have z: "zeros_like_of (cell H1 (b1 ! k)) (cell H (?ps ! k))"
      if "length buffers \<le> k" "k \<le> index" for k
      using buffer_at_grow_cells [OF assms(1) ms(1) wf refl g that] .
    from wf assms(1) ret(5) have "cell H1 (?ps ! index) = cell H (?ps ! index)" by simp
    with z [OF le le_refl]
    have "device (cell H1 (b1 ! index)) = device (cell H1 (?ps ! index))
          \<and> dtype (cell H1 (b1 ! index)) = dtype (cell H1 (?ps ! index))"
      by (simp add: zeros_like_of_def)
    with slot have "buffers' = b1" "H' = H1" by simp_all
    with ret z show ?thesis by simp
  qed
  from slot grown False show ?thesis by simp
qed

theorem buffer_at_Tensor_matches_witness:
  "0 < length (parameters_m ex_opt) \<and> length (parameters_m ex_opt) \<le> ex_max_size
   \<and> fst (buffer_at_Tensor ex_max_size mark_cast ex_opt [3] 0 ex_heap) = Inr 6
   \<and> fst (snd (buffer_at_Tensor ex_max_size mark_cast ex_opt [3] 0 ex_heap)) = [6]
   \<and> device (cell ex_heap 3) = CUDA 0 \<and> data (cell ex_heap 3) = [1, 1]
   \<and> cell (snd (snd (buffer_at_Tensor ex_max_size mark_cast ex_opt [3] 0 ex_heap))) 6
       = \<lparr>is_leaf = True, device = CPU, dtype = Float, sizes = [2], data = [101, 101],
          grad = None\<rparr>
   \<and> buffer_at_Tensor ex_max_size mark_cast ex_opt [6] 0
        (snd (snd (buffer_at_Tensor ex_max_size mark_cast ex_opt [3] 0 ex_heap)))
       = (Inr 6, [6], snd (snd (buffer_at_Tensor ex_max_size mark_cast ex_opt [3] 0 ex_heap)))
   \<and> buffer_at_Tensor ex_max_size mark_cast ex_opt [4] 0 ex_heap = (Inr 4, [4], ex_heap)
   \<and> length (fst (snd (buffer_at_Tensor ex_max_size mark_cast ex_opt [] 1 ex_heap))) = 2
   \<and> fresh (snd (snd (buffer_at_Tensor ex_max_size mark_cast ex_opt [] 1 ex_heap))) = 8
   \<and> data (cell (snd (snd (buffer_at_Tensor ex_max_size mark_cast ex_opt [] 1 ex_heap)))
        (fst (snd (buffer_at_Tensor ex_max_size mark_cast ex_opt [] 1 ex_heap)) ! 1)) = [0, 0]"
proof -
  let ?X = "buffer_at_Tensor ex_max_size mark_cast ex_opt [3] 0 ex_heap"
  let ?Y = "buffer_at_Tensor ex_max_size mark_cast ex_opt [4] 0 ex_heap"
  let ?Z = "buffer_at_Tensor ex_max_size mark_cast ex_opt [] 1 ex_heap"
  have a: "0 < length (parameters_m ex_opt)" "1 < length (parameters_m ex_opt)"
    by (simp_all add: ex_opt_def)
  have m: "length (parameters_m ex_opt) \<le> ex_max_size"
    by (simp add: ex_opt_def ex_max_size_def)
  have p: "parameters_m ex_opt ! 0 = 0" "parameters_m ex_opt ! Suc 0 = 2" "fresh ex_heap = 6"
    by (simp_all add: ex_opt_def ex_heap_def)
  have t: "cell ex_heap 0 = leaf_tensor [2]"
    "cell ex_heap 3 = (leaf_tensor [2])\<lparr>device := CUDA 0, dtype := Double\<rparr>"
    "cell ex_heap 4 = leaf_tensor [3]"
    "data (cell ex_heap 2) = [1, 1]"
    by (simp_all add: ex_heap_def leaf_tensor_def numeral_2_eq_2)
  have l: "leaf_tensor [2] = \<lparr>is_leaf = True, device = CPU, dtype = Float, sizes = [2],
      data = [1, 1], grad = None\<rparr>"
    by (simp add: leaf_tensor_def numeral_2_eq_2)
  have c: "?X = (fst ?X, fst (snd ?X), snd (snd ?X))" by simp
  have y: "?Y = (fst ?Y, fst (snd ?Y), snd (snd ?Y))" by simp
  have z: "?Z = (fst ?Z, fst (snd ?Z), snd (snd ?Z))" by simp
  have wf: "\<forall>p \<in> set (parameters_m ex_opt). p < fresh ex_heap"
    by (simp add: ex_opt_def ex_heap_def)
  have r: "replicate 2 (0 :: int) = [0, 0]" by (simp add: numeral_2_eq_2)
  note mx = buffer_at_Tensor_matches [OF a(1) m c]
  from mx have x1: "fst (snd ?X) = [6]"
    "cell (snd (snd ?X)) 6 = \<lparr>is_leaf = True, device = CPU, dtype = Float, sizes = [2],
        data = [101, 101], grad = None\<rparr>"
    by (simp_all add: p t l mark_cast_def)
  from mx x1(1) have x2: "fst ?X = Inr 6" by simp
  from mx x1(1) x2 have x3: "buffer_at_Tensor ex_max_size mark_cast ex_opt [6] 0 (snd (snd ?X))
        = (Inr 6, [6], snd (snd ?X))"
    by simp
  note x' = x2 x1 x3
  from buffer_at_Tensor_matches [OF a(1) m y]
  have y': "fst ?Y = Inr 4" "fst (snd ?Y) = [4]" "snd (snd ?Y) = ex_heap"
    by (simp_all add: p t leaf_tensor_def)
  then have y'': "?Y = (Inr 4, [4], ex_heap)" by (metis y)
  have pre: "length ([] :: handle list) \<le> 1
      \<and> (\<forall>p \<in> set (parameters_m ex_opt). p < fresh ex_heap)"
    using wf by simp
  note mz = buffer_at_Tensor_matches [OF a(2) m z, THEN conjunct2, THEN conjunct2,
      THEN conjunct2, THEN conjunct2, THEN conjunct2, THEN conjunct1, rule_format, OF pre]
  from mz have z1: "length (fst (snd ?Z)) = 2" "fresh (snd (snd ?Z)) = 8"
    by (simp_all add: p)
  have k: "length ([] :: handle list) \<le> 1 \<and> (1 :: nat) \<le> 1" by simp
  note zk = mz [THEN conjunct2, THEN conjunct2, THEN conjunct2, THEN conjunct2,
      rule_format, OF k]
  from zk have z2: "data (cell (snd (snd ?Z)) (fst (snd ?Z) ! 1)) = [0, 0]"
    by (simp add: zeros_like_of_def p t r)
  note z' = z1 z2
  from a m x' y'' z' t l show ?thesis by simp
qed

text \<open>
  C8, as the code has it. When the flat parameter list has at least six handles, all
  allocated (and, being a vector, is not longer than \<open>max_size()\<close>), \<open>buffer_at\<close> with
  index 5 on an empty vector grows the vector to length 6 and returns its slot 5; for
  every \<open>j\<close> below 6 the entry \<open>j\<close> is a tensor of zeros with the shape, device and
  element type of the parameter at \<open>j\<close> (not of the parameter at 5), and the parameters
  are unchanged.
\<close>

theorem buffer_at_Tensor_from_empty:
  assumes "5 < length (parameters_m opt)"
    and "length (parameters_m opt) \<le> max_size"
    and "\<forall>p \<in> set (parameters_m opt). p < fresh H"
    and "buffer_at_Tensor max_size cast opt [] 5 H = (r, buffers', H')"
  shows "length buffers' = 6 \<and> r = Inr (buffers' ! 5)
    \<and> (\<forall>j < 6. sizes (cell H' (buffers' ! j)) = sizes (cell H (parameters_m opt ! j))
              \<and> device (cell H' (buffers' ! j)) = device (cell H (parameters_m opt ! j))
              \<and> dtype (cell H' (buffers' ! j)) = dtype (cell H (parameters_m opt ! j))
              \<and> data (cell H' (buffers' ! j))
                  = replicate (length (data (cell H (parameters_m opt ! j)))) 0)
    \<and> (\<forall>p \<in> set (parameters_m opt). cell H' p = cell H p)"
proof -
  let ?ps = "parameters_m opt"
  from assms(1,2) have ms: "5 < max_size" "5 \<le> max_size" by simp_all
  obtain r1 b1 H1 where g: "buffer_at_grow max_size ?ps 5 (length ([] :: handle list)) [] H
      = (r1, b1, H1)"
    by (metis prod_cases3)
  from buffer_at_grow_returns [OF assms(1) ms(1) _ refl g]
  have ret: "r1 = Inr ()" "length b1 = 6" "\<forall>h < fresh H. cell H1 h = cell H h" by simp_all
  have z: "zeros_like_of (cell H1 (b1 ! j)) (cell H (?ps ! j))" if "j < 6" for j
    using buffer_at_grow_cells [OF assms(1) ms(1) assms(3) refl g, of j] that by simp
  from assms(1,3) ret(3) have p5: "cell H1 (?ps ! 5) = cell H (?ps ! 5)" by simp
  from z [of 5] p5 have same: "device (cell H1 (b1 ! 5)) = device (cell H1 (?ps ! 5))
      \<and> dtype (cell H1 (b1 ! 5)) = dtype (cell H1 (?ps ! 5))"
    by (simp add: zeros_like_of_def)
  from ret(2) have ib: "5 < length b1" by simp
  from g ret(1) buffer_at_Tensor_grown [OF _ ms(2) ib, of "[]" opt H H1 cast] assms(4)
  have "buffer_at_Tensor max_size cast opt b1 5 H1 = (r, buffers', H')" by simp
  from buffer_at_Tensor_slot [OF assms(1) ib this] same
  have e: "r = Inr (buffers' ! 5)" "buffers' = b1" "H' = H1" by simp_all
  from assms(3) ret(3) e(3) have "\<forall>p \<in> set ?ps. cell H' p = cell H p" by simp
  with e ret(2) z show ?thesis by (simp add: zeros_like_of_def)
qed

theorem buffer_at_Tensor_from_empty_witness:
  "5 < length (parameters_m ex_six) \<and> length (parameters_m ex_six) \<le> ex_max_size
   \<and> parameters_m ex_six = [0, 1, 2, 3, 4, 5] \<and> fresh ex_heap = 6
   \<and> length (fst (snd (buffer_at_Tensor ex_max_size keep_value ex_six [] 5 ex_heap))) = 6
   \<and> sizes (cell (snd (snd (buffer_at_Tensor ex_max_size keep_value ex_six [] 5 ex_heap)))
        (fst (snd (buffer_at_Tensor ex_max_size keep_value ex_six [] 5 ex_heap)) ! 0)) = [2]
   \<and> data (cell (snd (snd (buffer_at_Tensor ex_max_size keep_value ex_six [] 5 ex_heap)))
        (fst (snd (buffer_at_Tensor ex_max_size keep_value ex_six [] 5 ex_heap)) ! 5))
       = [0, 0, 0]"
proof -
  let ?X = "buffer_at_Tensor ex_max_size keep_value ex_six [] 5 ex_heap"
  have a: "5 < length (parameters_m ex_six)" by (simp add: ex_six_def)
  have m: "length (parameters_m ex_six) \<le> ex_max_size"
    by (simp add: ex_six_def ex_max_size_def)
  have b: "\<forall>p \<in> set (parameters_m ex_six). p < fresh ex_heap"
    by (simp add: ex_six_def ex_heap_def)
  have c: "?X = (fst ?X, fst (snd ?X), snd (snd ?X))" by simp
  have d: "sizes (cell ex_heap (parameters_m ex_six ! 0)) = [2]"
    "data (cell ex_heap (parameters_m ex_six ! 5)) = [1, 1, 1]"
    by (simp_all add: ex_six_def ex_heap_def leaf_tensor_def numeral_3_eq_3)
  have e: "parameters_m ex_six = [0, 1, 2, 3, 4, 5]" "fresh ex_heap = 6"
    by (simp_all add: ex_six_def ex_heap_def)
  have r: "replicate 3 (0 :: int) = [0, 0, 0]" by (simp add: numeral_3_eq_3)
  from buffer_at_Tensor_from_empty [OF a m b c] a m d e r show ?thesis by simp
qed

text \<open>
  C8 as stated fails: in the example the parameter at 0 has shape \<open>[2]\<close> and the
  parameter at 3 lives on a CUDA device, while the parameter at 5 has shape \<open>[3]\<close> on
  the CPU; the entries 0 and 3 of the grown vector (the handles 6 and 9) follow their
  own parameters, not the parameter at 5.
\<close>

theorem buffer_at_Tensor_from_empty_shapes:
  "fst (snd (buffer_at_Tensor ex_max_size keep_value ex_six [] 5 ex_heap))
     = [6, 7, 8, 9, 10, 11]
   \<and> sizes (cell (snd (snd (buffer_at_Tensor ex_max_size keep_value ex_six [] 5 ex_heap))) 6)
       = [2]
   \<and> device (cell (snd (snd (buffer_at_Tensor ex_max_size keep_value ex_six [] 5 ex_heap))) 9)
       = CUDA 0
   \<and> sizes (cell (snd (snd (buffer_at_Tensor ex_max_size keep_value ex_six [] 5 ex_heap)))
        (parameters_m ex_six ! 5)) = [3]
   \<and> device (cell (snd (snd (buffer_at_Tensor ex_max_size keep_value ex_six [] 5 ex_heap)))
        (parameters_m ex_six ! 5)) = CPU"
  by (simp add: buffer_at_Tensor_def reserve_def push_back_def ex_max_size_def ex_six_def
      buffer_at_grow.simps zeros_like_eq ex_heap_def leaf_tensor_def)




end
